theory Spec2Isabelle
  imports Complex_Main "HOL-Library.Sublist"
begin

section \<open>Data model (src/types.ts)\<close>

text \<open>
  A TypeScript \<open>number\<close> is modelled as a rational: the values the claims fix (0, 1.5, 3,
  whole seconds, millisecond clock readings) are binary fractions, on which the arithmetic
  of the source is exact. NaN, the infinities and the rounding of a product that is not
  representable are outside the model. A string is a list of 8-bit characters.
\<close>

type_synonym number = rat

text \<open>
  \<^verbatim>\<open>interface TranscriptionSegment { startTime: number; endTime: number; text: string; }\<close>
  The field \<open>text\<close> is named \<open>segText\<close> here (record fields are global names).
\<close>

record TranscriptionSegment =
  startTime :: number
  endTime :: number
  segText :: string

text \<open>
  \<^verbatim>\<open>interface TranscriptionEntry { id: string; text: string; segments?: TranscriptionSegment[];
    timestamp: number; duration: number; audioUrl?: string; }\<close>
  An optional field is an \<open>option\<close>: \<open>None\<close> is \<open>undefined\<close>.
\<close>

record TranscriptionEntry =
  entryId :: string
  entryText :: string
  segments :: "TranscriptionSegment list option"
  timestamp :: number
  duration :: number
  audioUrl :: "string option"

datatype RecordingStatus = idle | recording | processing | error

section \<open>Platform primitives used by the source\<close>

text \<open>\<open>String(n)\<close> for an integer \<open>n\<close> below \<open>10^21\<close> in absolute value: its decimal digits.\<close>

fun digits :: "nat \<Rightarrow> string" where
  "digits n = (if n < 10 then [char_of (48 + n)] else digits (n div 10) @ [char_of (48 + n mod 10)])"

declare digits.simps [simp del]

definition String_int :: "int \<Rightarrow> string" where
  "String_int i = (if i < 0 then CHR ''-'' # digits (nat (- i)) else digits (nat i))"

text \<open>\<open>String(x)\<close> for the result of a \<open>Date\<close> getter: \<open>None\<close> is NaN.\<close>

definition String_num :: "int option \<Rightarrow> string" where
  "String_num x = (case x of None \<Rightarrow> ''NaN'' | Some i \<Rightarrow> String_int i)"

text \<open>\<open>s.padStart(n, c)\<close> with a one-character filler.\<close>

definition padStart :: "nat \<Rightarrow> char \<Rightarrow> string \<Rightarrow> string" where
  "padStart n c s = replicate (n - length s) c @ s"

text \<open>\<open>xs.join(sep)\<close> on an array of strings.\<close>

fun join :: "string \<Rightarrow> string list \<Rightarrow> string" where
  "join sep [] = []"
| "join sep [x] = x"
| "join sep (x # y # ys) = x @ sep @ join sep (y # ys)"

text \<open>
  \<open>new Date(v)\<close>: the time value is \<open>v\<close> truncated toward zero, and the date is invalid
  (\<open>None\<close>) when \<open>v\<close> is beyond 8.64e15 milliseconds in absolute value.
\<close>

definition Date :: "number \<Rightarrow> int option" where
  "Date v = (if \<bar>v\<bar> > 8640000000000000 then None
             else Some (if 0 \<le> v then \<lfloor>v\<rfloor> else \<lceil>v\<rceil>))"

definition getUTCMinutes :: "int option \<Rightarrow> int option" where
  "getUTCMinutes d = map_option (\<lambda>t. (t div 60000) mod 60) d"

definition getUTCSeconds :: "int option \<Rightarrow> int option" where
  "getUTCSeconds d = map_option (\<lambda>t. (t div 1000) mod 60) d"

definition getUTCMilliseconds :: "int option \<Rightarrow> int option" where
  "getUTCMilliseconds d = map_option (\<lambda>t. t mod 1000) d"

section \<open>Subtitle export (src/App.tsx, formatSRTTime and exportToSRT)\<close>

definition formatSRTTime :: "number \<Rightarrow> string" where
  "formatSRTTime seconds =
     (let date = Date (seconds * 1000);
          hh = padStart 2 CHR ''0'' (String_int \<lfloor>seconds / 3600\<rfloor>);
          mm = padStart 2 CHR ''0'' (String_num (getUTCMinutes date));
          ss = padStart 2 CHR ''0'' (String_num (getUTCSeconds date));
          ms = padStart 3 CHR ''0'' (String_num (getUTCMilliseconds date))
      in hh @ '':'' @ mm @ '':'' @ ss @ '','' @ ms)"

text \<open>The callback of \<open>entry.segments.map((seg, i) => ...)\<close>; \<open>i\<close> is the 0-based index.\<close>

definition srtBlock :: "nat \<Rightarrow> TranscriptionSegment \<Rightarrow> string" where
  "srtBlock i seg =
     String_int (int i + 1) @ ''\<newline>''
     @ formatSRTTime (startTime seg) @ '' --> '' @ formatSRTTime (endTime seg) @ ''\<newline>''
     @ segText seg @ ''\<newline>''"

definition srtContent :: "TranscriptionSegment list \<Rightarrow> string" where
  "srtContent segs = join ''\<newline>'' (map (\<lambda>(i, seg). srtBlock i seg) (enumerate 0 segs))"

section \<open>JSON values and the typed view of parsed data\<close>

datatype json =
  JNull | JBool bool | JNum number | JStr string | JArr "json list" | JObj "(string \<times> json) list"

text \<open>
  A string handed to \<open>JSON.parse\<close> or produced by \<open>JSON.stringify\<close> is represented by the
  JSON value it denotes (\<open>Text v\<close>), or is not JSON at all (\<open>Malformed\<close>). The printer and
  the parser themselves are platform code; what the model keeps of them is that
  \<open>JSON.parse\<close> throws on malformed text and gives back what \<open>JSON.stringify\<close> printed.
  The keys of an object are distinct.
\<close>

datatype json_text = Malformed | Text json

definition JSON_parse :: "json_text \<Rightarrow> json option" where
  "JSON_parse t = (case t of Malformed \<Rightarrow> None | Text v \<Rightarrow> Some v)"

text \<open>
  \<open>v.k\<close> on a parsed value other than \<open>null\<close>, for the keys the source reads: the property
  of an object, \<open>undefined\<close> (\<open>None\<close>) on a missing key and on a number, string, boolean
  or array.
\<close>

definition property :: "json \<Rightarrow> string \<Rightarrow> json option" where
  "property v k = (case v of JObj kvs \<Rightarrow> map_of kvs k | _ \<Rightarrow> None)"

text \<open>
  The source casts parsed JSON to its TypeScript types without checking it. The model is
  typed, so each cast is a view that succeeds exactly on data of the declared type.
\<close>

definition asSegment :: "json \<Rightarrow> TranscriptionSegment option" where
  "asSegment v =
     (case (property v ''startTime'', property v ''endTime'', property v ''text'') of
        (Some (JNum a), Some (JNum b), Some (JStr t)) \<Rightarrow>
          Some \<lparr>startTime = a, endTime = b, segText = t\<rparr>
      | _ \<Rightarrow> None)"

text \<open>A value of type \<open>TranscriptionSegment[] | undefined\<close>.\<close>

definition asSegments :: "json option \<Rightarrow> TranscriptionSegment list option option" where
  "asSegments x =
     (case x of
        None \<Rightarrow> Some None
      | Some (JArr vs) \<Rightarrow> map_option Some (those (map asSegment vs))
      | Some _ \<Rightarrow> None)"

text \<open>What \<open>JSON.stringify\<close> prints for a typed value: a property that is \<open>undefined\<close> is left out.\<close>

definition segJson :: "TranscriptionSegment \<Rightarrow> json" where
  "segJson seg =
     JObj [(''startTime'', JNum (startTime seg)), (''endTime'', JNum (endTime seg)),
           (''text'', JStr (segText seg))]"

definition entryJson :: "TranscriptionEntry \<Rightarrow> json" where
  "entryJson e =
     JObj ([(''id'', JStr (entryId e)), (''text'', JStr (entryText e))]
           @ (case segments e of None \<Rightarrow> [] | Some segs \<Rightarrow> [(''segments'', JArr (map segJson segs))])
           @ [(''timestamp'', JNum (timestamp e)), (''duration'', JNum (duration e))]
           @ (case audioUrl e of None \<Rightarrow> [] | Some u \<Rightarrow> [(''audioUrl'', JStr u)]))"

definition JSON_stringify :: "TranscriptionEntry list \<Rightarrow> json_text" where
  "JSON_stringify es = Text (JArr (map entryJson es))"

section \<open>Application state (src/App.tsx)\<close>

text \<open>
  The component's state variables, and the parts of the environment its handlers act on:
  \<open>localStorage\<close>, the files handed to the browser for download (name and content), and
  the requests sent to the transcription service (audio data and mime type). The state
  variable \<open>error\<close> is the field \<open>error_message\<close>.
\<close>

record App =
  history :: "TranscriptionEntry list"
  status :: RecordingStatus
  currentEntry :: "TranscriptionEntry option"
  error_message :: "string option"
  currentTime :: number
  localStorage :: "string \<rightharpoonup> json_text"
  downloads :: "(string \<times> string) list"
  requests :: "(string \<times> string) list"

definition initialApp :: "(string \<rightharpoonup> json_text) \<Rightarrow> App" where
  "initialApp storage =
     \<lparr>history = [], status = idle, currentEntry = None, error_message = None, currentTime = 0,
      localStorage = storage, downloads = [], requests = []\<rparr>"

text \<open>
  The result of a handler that consumes parsed JSON: the next state, or \<open>IllTyped\<close> when
  the data is not of the TypeScript type the source casts it to (the source then goes on
  with values the typed model does not describe).
\<close>

datatype 'a typed = WellTyped 'a | IllTyped

subsection \<open>Loading the history at startup\<close>

text \<open>\<open>({ ...e, audioUrl: undefined })\<close> on a parsed element, as a \<open>TranscriptionEntry\<close>.\<close>

definition cleanEntry :: "json \<Rightarrow> TranscriptionEntry option" where
  "cleanEntry e =
     (case (property e ''id'', property e ''text'', asSegments (property e ''segments''),
            property e ''timestamp'', property e ''duration'') of
        (Some (JStr i), Some (JStr t), Some segs, Some (JNum ts), Some (JNum d)) \<Rightarrow>
          Some \<lparr>entryId = i, entryText = t, segments = segs, timestamp = ts, duration = d,
                audioUrl = None\<rparr>
      | _ \<Rightarrow> None)"

text \<open>
  The effect run once on mount. A missing key leaves the state as it is; so does a
  \<open>JSON.parse\<close> that throws and a parsed value without a \<open>map\<close> method (a TypeError),
  both caught by the \<open>try\<close>.
\<close>

definition loadEffect :: "App \<Rightarrow> App typed" where
  "loadEffect s =
     (case localStorage s ''transcription_history'' of
        None \<Rightarrow> WellTyped s
      | Some saved \<Rightarrow>
          (case JSON_parse saved of
             None \<Rightarrow> WellTyped s
           | Some (JArr parsed) \<Rightarrow>
               (case those (map cleanEntry parsed) of
                  Some cleaned \<Rightarrow> WellTyped (s\<lparr>history := cleaned\<rparr>)
                | None \<Rightarrow> IllTyped)
           | Some _ \<Rightarrow> WellTyped s))"

subsection \<open>The transcription client (src/services/geminiService.ts)\<close>

text \<open>
  What the remote call comes back with: a failure of the call, or a response whose
  \<open>text\<close> is handed to \<open>JSON.parse\<close>.
\<close>

datatype service_reply = CallFailed | Response json_text

datatype 'a attempt = Throws | Returns 'a

record TranscriptionResult =
  resultText :: string
  resultSegments :: "TranscriptionSegment list option"

text \<open>
  \<open>transcribeAudio\<close> rethrows a failed call and a \<open>JSON.parse\<close> error; reading \<open>result.text\<close>
  of \<open>null\<close> throws too. Any other parsed value is returned as
  \<open>{ text: result.text, segments: result.segments }\<close> with no check against the schema.
\<close>

definition transcribeAudio :: "service_reply \<Rightarrow> TranscriptionResult attempt typed" where
  "transcribeAudio reply =
     (case reply of
        CallFailed \<Rightarrow> WellTyped Throws
      | Response t \<Rightarrow>
          (case JSON_parse t of
             None \<Rightarrow> WellTyped Throws
           | Some JNull \<Rightarrow> WellTyped Throws
           | Some result \<Rightarrow>
               (case (property result ''text'', asSegments (property result ''segments'')) of
                  (Some (JStr t), Some segs) \<Rightarrow>
                    WellTyped (Returns \<lparr>resultText = t, resultSegments = segs\<rparr>)
                | _ \<Rightarrow> IllTyped)))"

subsection \<open>processTranscription\<close>

text \<open>
  \<open>localStorage.setItem('transcription_history',
     JSON.stringify(updatedHistory.map(e => ({ ...e, audioUrl: undefined }))))\<close>
\<close>

definition persistHistory ::
  "TranscriptionEntry list \<Rightarrow> (string \<rightharpoonup> json_text) \<Rightarrow> (string \<rightharpoonup> json_text)" where
  "persistHistory updatedHistory storage =
     storage(''transcription_history'' \<mapsto>
       JSON_stringify (map (\<lambda>e. e\<lparr>audioUrl := None\<rparr>) updatedHistory))"

definition processing_error :: string where
  "processing_error =
     ''Error al procesar la transcripci'' @ [CHR 0xF3] @ ''n profesional. Int'' @ [CHR 0xE9]
     @ ''ntalo de nuevo.''"

text \<open>
  The asynchronous function is modelled as one step from the state at the call to the
  state after the reply: \<open>reply\<close> is what the service answers, \<open>now_id\<close> and \<open>now_ts\<close> are
  the two readings of \<open>Date.now()\<close>. The \<open>history\<close> of the closure is the history of the
  state at the call, and \<open>localStorage.setItem\<close> succeeds.
\<close>

definition processTranscription ::
  "string \<Rightarrow> string \<Rightarrow> number \<Rightarrow> string \<Rightarrow> string option \<Rightarrow>
   service_reply \<Rightarrow> int \<Rightarrow> int \<Rightarrow> App \<Rightarrow> App typed" where
  "processTranscription base64Audio mimeType dur url fileName reply now_id now_ts s =
     (let s1 = s\<lparr>error_message := None, status := processing,
                  requests := requests s @ [(base64Audio, mimeType)]\<rparr>
      in case transcribeAudio reply of
           IllTyped \<Rightarrow> IllTyped
         | WellTyped Throws \<Rightarrow>
             WellTyped (s1\<lparr>error_message := Some processing_error, status := error\<rparr>)
         | WellTyped (Returns result) \<Rightarrow>
             (let newEntry =
                    \<lparr>entryId = String_int now_id,
                     entryText =
                       (case fileName of
                          None \<Rightarrow> resultText result
                        | Some f \<Rightarrow>
                            if f = [] then resultText result
                            else ''[Archivo: '' @ f @ '']\<newline>'' @ resultText result),
                     segments = resultSegments result,
                     timestamp = of_int now_ts,
                     duration = dur,
                     audioUrl = Some url\<rparr>;
                  updatedHistory = newEntry # history s
              in WellTyped
                   (s1\<lparr>history := updatedHistory,
                       localStorage := persistHistory updatedHistory (localStorage s1),
                       currentEntry := Some newEntry,
                       status := idle\<rparr>)))"

text \<open>\<open>handleRecordingComplete\<close>; \<open>url\<close> is the object URL made for the recorded blob.\<close>

definition handleRecordingComplete ::
  "string \<Rightarrow> string \<Rightarrow> number \<Rightarrow> string \<Rightarrow> service_reply \<Rightarrow> int \<Rightarrow> int \<Rightarrow> App \<Rightarrow> App typed" where
  "handleRecordingComplete base64Audio mimeType dur url reply now_id now_ts s =
     processTranscription base64Audio mimeType dur url None reply now_id now_ts s"

subsection \<open>Uploading a file\<close>

text \<open>A \<open>File\<close>: its name, its type and its content in base64 (what the reader hands over).\<close>

record File =
  fileName :: string
  fileType :: string
  fileData :: string

definition handleFileChange ::
  "File option \<Rightarrow> string \<Rightarrow> service_reply \<Rightarrow> int \<Rightarrow> int \<Rightarrow> App \<Rightarrow> App typed" where
  "handleFileChange file url reply now_id now_ts s =
     (case file of
        None \<Rightarrow> WellTyped s
      | Some f \<Rightarrow>
          if \<not> prefix ''audio/'' (fileType f)
          then WellTyped (s\<lparr>error_message := Some ''Selecciona un archivo de audio.''\<rparr>)
          else processTranscription (fileData f) (fileType f) 0 url (Some (fileName f))
                 reply now_id now_ts s)"

subsection \<open>Export, clearing, selection and the active segment\<close>

definition exportToSRT :: "TranscriptionEntry \<Rightarrow> App \<Rightarrow> App" where
  "exportToSRT entry s =
     (case segments entry of
        None \<Rightarrow> s
      | Some segs \<Rightarrow>
          s\<lparr>downloads := downloads s
               @ [(''subtitulos_'' @ entryId entry @ ''.srt'', srtContent segs)]\<rparr>)"

text \<open>\<open>confirmed\<close> is the answer of \<open>window.confirm\<close>.\<close>

definition clearHistory :: "bool \<Rightarrow> App \<Rightarrow> App" where
  "clearHistory confirmed s =
     (if confirmed
      then s\<lparr>history := [],
             localStorage := (localStorage s)(''transcription_history'' := None),
             currentEntry := None\<rparr>
      else s)"

definition isSegmentActive :: "App \<Rightarrow> TranscriptionSegment \<Rightarrow> bool" where
  "isSegmentActive s seg \<longleftrightarrow> currentTime s \<ge> startTime seg \<and> currentTime s \<le> endTime seg"

text \<open>
  The segment view: one span per segment, in order, highlighted when
  \<open>isSegmentActive\<close> holds of it.
\<close>

definition renderSegments :: "App \<Rightarrow> TranscriptionSegment list \<Rightarrow> (string \<times> bool) list" where
  "renderSegments s segs = map (\<lambda>seg. (segText seg, isSegmentActive s seg)) segs"

text \<open>The click handler of a history row: \<open>if (currentEntry?.id !== entry.id) setCurrentEntry(entry)\<close>.\<close>

definition selectEntry :: "TranscriptionEntry \<Rightarrow> App \<Rightarrow> App" where
  "selectEntry entry s =
     (if map_option entryId (currentEntry s) \<noteq> Some (entryId entry)
      then s\<lparr>currentEntry := Some entry\<rparr>
      else s)"

section \<open>The recording widget (components/AudioRecorder)\<close>

text \<open>
  A \<open>MediaRecorder\<close> with the \<open>onstop\<close> handler that \<open>startRecording\<close> installs on it.
  The handler is a closure created inside \<open>startRecording\<close>; the \<open>recordingTime\<close> it
  passes on is the constant of the render in which \<open>startRecording\<close> ran, kept here as
  \<open>onstop_recordingTime\<close>. Later calls of \<open>setRecordingTime\<close> give later renders a new
  constant and leave this one as it is.
\<close>

record MediaRecorder =
  mimeType :: string
  onstop_recordingTime :: nat

text \<open>
  The widget: its state variable \<open>recordingTime\<close>, its refs (\<open>timerRunning\<close> says whether
  the interval of \<open>timerRef\<close> is live), the \<open>status\<close> it shares with the application
  (\<open>recorderStatus\<close>), and the calls of \<open>onRecordingComplete\<close> made so far (audio data,
  mime type, duration). The audio data is the recorded chunks in order, standing for
  their base64 encoding.
\<close>

record AudioRecorder =
  recordingTime :: nat
  mediaRecorderRef :: "MediaRecorder option"
  timerRunning :: bool
  chunksRef :: "string list"
  recorderStatus :: RecordingStatus
  completed :: "(string \<times> string \<times> nat) list"

definition initialRecorder :: AudioRecorder where
  "initialRecorder =
     \<lparr>recordingTime = 0, mediaRecorderRef = None, timerRunning = False, chunksRef = [],
      recorderStatus = idle, completed = []\<rparr>"

text \<open>
  \<open>access\<close> is the outcome of \<open>getUserMedia\<close>: \<open>None\<close> when it rejects, otherwise the mime
  type of the recorder made for the stream.
\<close>

definition startRecording :: "string option \<Rightarrow> AudioRecorder \<Rightarrow> AudioRecorder" where
  "startRecording access s =
     (case access of
        None \<Rightarrow> s\<lparr>recorderStatus := error\<rparr>
      | Some mime \<Rightarrow>
          s\<lparr>mediaRecorderRef := Some \<lparr>mimeType = mime, onstop_recordingTime = recordingTime s\<rparr>,
            chunksRef := [],
            recorderStatus := recording,
            recordingTime := 0,
            timerRunning := True\<rparr>)"

text \<open>The \<open>ondataavailable\<close> handler.\<close>

definition dataavailable :: "string \<Rightarrow> AudioRecorder \<Rightarrow> AudioRecorder" where
  "dataavailable chunk s = (if length chunk > 0 then s\<lparr>chunksRef := chunksRef s @ [chunk]\<rparr> else s)"

text \<open>One firing of the interval: \<open>setRecordingTime(prev => prev + 1)\<close>.\<close>

definition tick :: "AudioRecorder \<Rightarrow> AudioRecorder" where
  "tick s = (if timerRunning s then s\<lparr>recordingTime := recordingTime s + 1\<rparr> else s)"

text \<open>The \<open>onstop\<close> handler of recorder \<open>r\<close>.\<close>

definition onstop :: "MediaRecorder \<Rightarrow> AudioRecorder \<Rightarrow> AudioRecorder" where
  "onstop r s =
     s\<lparr>completed := completed s @ [(concat (chunksRef s), mimeType r, onstop_recordingTime r)]\<rparr>"

text \<open>
  \<open>stopRecording\<close>: \<open>mediaRecorder.stop()\<close> flushes the data recorded since the last chunk
  (\<open>lastChunk\<close>) and fires \<open>onstop\<close>; the interval is cleared and the status set.
\<close>

definition stopRecording :: "string \<Rightarrow> AudioRecorder \<Rightarrow> AudioRecorder" where
  "stopRecording lastChunk s =
     (case mediaRecorderRef s of
        None \<Rightarrow> s
      | Some r \<Rightarrow>
          if recorderStatus s = recording
          then (onstop r (dataavailable lastChunk s))\<lparr>timerRunning := False, recorderStatus := processing\<rparr>
          else s)"

section \<open>Evaluation lemmas\<close>

lemma String_int_5: "String_int 5 = ''5''"
  by code_simp

lemma srtContent_Hola_mundo:
  "srtContent [\<lparr>startTime = 0, endTime = 3 / 2, segText = ''Hola''\<rparr>,
               \<lparr>startTime = 3 / 2, endTime = 3, segText = ''mundo''\<rparr>]
   = ''1\<newline>00:00:00,000 --> 00:00:01,500\<newline>Hola\<newline>\<newline>2\<newline>00:00:01,500 --> 00:00:03,000\<newline>mundo\<newline>''"
  by code_simp

lemma formatSRTTime_truncates: "formatSRTTime (1025 / 1024) = ''00:00:01,000''"
  by code_simp

section \<open>Reading back what was written\<close>

lemma asSegment_segJson: "asSegment (segJson seg) = Some seg"
  by (simp add: asSegment_def segJson_def property_def)

lemma those_asSegment_segJson: "those (map asSegment (map segJson segs)) = Some segs"
  by (induction segs) (simp_all add: asSegment_segJson)

lemma cleanEntry_entryJson: "cleanEntry (entryJson e) = Some (e\<lparr>audioUrl := None\<rparr>)"
  by (cases "segments e"; cases "audioUrl e")
     (simp_all add: cleanEntry_def entryJson_def property_def asSegments_def
        those_asSegment_segJson del: map_map)

lemma those_cleanEntry_entryJson:
  "those (map cleanEntry (map entryJson es)) = Some (map (\<lambda>e. e\<lparr>audioUrl := None\<rparr>) es)"
  by (induction es) (simp_all add: cleanEntry_entryJson)

lemma cleanEntry_audioUrl: "cleanEntry v = Some e \<Longrightarrow> audioUrl e = None"
  by (auto simp: cleanEntry_def split: option.splits json.splits)

lemma those_cleanEntry_audioUrl:
  "those (map cleanEntry vs) = Some es \<Longrightarrow> e \<in> set es \<Longrightarrow> audioUrl e = None"
proof (induction vs arbitrary: es)
  case Nil
  then show ?case by simp
next
  case (Cons v vs)
  then show ?case
    by (auto split: option.splits dest: cleanEntry_audioUrl)
qed

lemma those_length: "those xs = Some ys \<Longrightarrow> length ys = length xs"
  by (induction xs arbitrary: ys) (auto split: option.splits)

section \<open>Subtitle export\<close>

text \<open>
  C1. For the segments \<open>{0, 1.5, "Hola"}\<close>, \<open>{1.5, 3, "mundo"}\<close>, whatever the rest of the
  entry and the state, \<open>exportToSRT\<close> hands over one file, named after the entry's id,
  whose content is exactly the two numbered blocks of the specification, separated by a
  blank line. Milliseconds are truncated: 1.0009765625 s (a binary fraction) prints as
  \<open>00:00:01,000\<close>.
\<close>

theorem exportToSRT_Hola_mundo:
  "exportToSRT (e\<lparr>segments := Some [\<lparr>startTime = 0, endTime = 3 / 2, segText = ''Hola''\<rparr>,
                                      \<lparr>startTime = 3 / 2, endTime = 3, segText = ''mundo''\<rparr>]\<rparr>) s
   = s\<lparr>downloads := downloads s @
        [(''subtitulos_'' @ entryId e @ ''.srt'',
          ''1\<newline>00:00:00,000 --> 00:00:01,500\<newline>Hola\<newline>\<newline>2\<newline>00:00:01,500 --> 00:00:03,000\<newline>mundo\<newline>'')]\<rparr>
   \<and> formatSRTTime (1025 / 1024) = ''00:00:01,000''"
  by (simp add: exportToSRT_def srtContent_Hola_mundo formatSRTTime_truncates)

text \<open>
  C10. Exporting an entry without segments returns the state as it was: no file is
  produced and nothing else changes.
\<close>

theorem exportToSRT_no_segments: "segments entry = None \<Longrightarrow> exportToSRT entry s = s"
  by (simp add: exportToSRT_def)

theorem exportToSRT_no_segments_witness:
  "exportToSRT \<lparr>entryId = ''7'', entryText = ''hola'', segments = None, timestamp = 7,
                 duration = 0, audioUrl = None\<rparr> (initialApp Map.empty)
   = initialApp Map.empty"
  using exportToSRT_no_segments
    [of "\<lparr>entryId = ''7'', entryText = ''hola'', segments = None, timestamp = 7,
          duration = 0, audioUrl = None\<rparr>" "initialApp Map.empty"]
  by simp

section \<open>The active segment\<close>

text \<open>
  C2. At playback time \<open>currentTime s\<close> a segment is active exactly when the time lies in
  the closed interval from its start to its end; a segment whose start and end coincide
  is active at that instant and at no other.
\<close>

theorem isSegmentActive_closed_interval:
  "(isSegmentActive s seg \<longleftrightarrow> startTime seg \<le> currentTime s \<and> currentTime s \<le> endTime seg)
   \<and> (startTime seg = endTime seg
        \<longrightarrow> (isSegmentActive s seg \<longleftrightarrow> currentTime s = startTime seg))"
  by (auto simp: isSegmentActive_def)

theorem isSegmentActive_closed_interval_witness:
  "isSegmentActive ((initialApp Map.empty)\<lparr>currentTime := 2\<rparr>)
     \<lparr>startTime = 2, endTime = 2, segText = ''a''\<rparr>
   \<and> \<not> isSegmentActive ((initialApp Map.empty)\<lparr>currentTime := 5 / 2\<rparr>)
     \<lparr>startTime = 2, endTime = 2, segText = ''a''\<rparr>"
  using
    isSegmentActive_closed_interval
      [of "(initialApp Map.empty)\<lparr>currentTime := 2\<rparr>"
          "\<lparr>startTime = 2, endTime = 2, segText = ''a''\<rparr>"]
    isSegmentActive_closed_interval
      [of "(initialApp Map.empty)\<lparr>currentTime := 5 / 2\<rparr>"
          "\<lparr>startTime = 2, endTime = 2, segText = ''a''\<rparr>"]
  by simp

text \<open>
  C9. The test is applied to each segment on its own. With the overlapping segments
  \<open>[0, 2]\<close> and \<open>[1, 3]\<close> and playback at 1.5 s, the view highlights both.
\<close>

theorem overlapping_segments_both_active:
  "renderSegments ((initialApp Map.empty)\<lparr>currentTime := 3 / 2\<rparr>)
     [\<lparr>startTime = 0, endTime = 2, segText = ''uno''\<rparr>,
      \<lparr>startTime = 1, endTime = 3, segText = ''dos''\<rparr>]
   = [(''uno'', True), (''dos'', True)]"
  by (simp add: renderSegments_def isSegmentActive_def)

section \<open>History: persistence, clearing, selection\<close>

text \<open>
  C3. Persisting a history \<open>h\<close> writes, under the storage key, the entries of \<open>h\<close> in
  order, none of them with an \<open>audioUrl\<close> property. Starting the application on that
  store loads the entries of \<open>h\<close>, in order, each without its playback handle. And
  whatever array is stored under the key, a load that succeeds gives one entry per
  stored element, none of them with a playback handle.
\<close>

theorem persist_then_load:
  "persistHistory h st ''transcription_history''
   = Some (Text (JArr (map (\<lambda>e. entryJson (e\<lparr>audioUrl := None\<rparr>)) h)))
   \<and> property (entryJson (e\<lparr>audioUrl := None\<rparr>)) ''audioUrl'' = None
   \<and> loadEffect (initialApp (persistHistory h st))
   = WellTyped ((initialApp (persistHistory h st))
       \<lparr>history := map (\<lambda>e. e\<lparr>audioUrl := None\<rparr>) h\<rparr>)
   \<and> (loadEffect s = WellTyped s'
        \<and> localStorage s ''transcription_history'' = Some (Text (JArr stored))
        \<longrightarrow> length (history s') = length stored
            \<and> (\<forall>e \<in> set (history s'). audioUrl e = None))"
proof -
  have idem:
    "map (\<lambda>e. e\<lparr>audioUrl := None\<rparr>) (map (\<lambda>e. e\<lparr>audioUrl := None\<rparr>) h)
     = map (\<lambda>e. e\<lparr>audioUrl := None\<rparr>) h"
    by simp
  have roundtrip:
    "loadEffect (initialApp (persistHistory h st))
     = WellTyped ((initialApp (persistHistory h st))
         \<lparr>history := map (\<lambda>e. e\<lparr>audioUrl := None\<rparr>) h\<rparr>)"
    by (simp add: loadEffect_def initialApp_def persistHistory_def JSON_stringify_def
        JSON_parse_def those_cleanEntry_entryJson idem del: map_map)
  have strip:
    "length (history s') = length stored \<and> (\<forall>e \<in> set (history s'). audioUrl e = None)"
    if "loadEffect s = WellTyped s'"
      and "localStorage s ''transcription_history'' = Some (Text (JArr stored))"
  proof -
    from that obtain cleaned where c: "those (map cleanEntry stored) = Some cleaned"
      and s': "s' = s\<lparr>history := cleaned\<rparr>"
      by (auto simp: loadEffect_def JSON_parse_def split: option.splits)
    from c have "length cleaned = length stored"
      by (simp add: those_length)
    with c s' show ?thesis
      by (auto dest: those_cleanEntry_audioUrl)
  qed
  have written:
    "persistHistory h st ''transcription_history''
     = Some (Text (JArr (map (\<lambda>e. entryJson (e\<lparr>audioUrl := None\<rparr>)) h)))"
    by (simp add: persistHistory_def JSON_stringify_def comp_def)
  have omitted: "property (entryJson (e\<lparr>audioUrl := None\<rparr>)) ''audioUrl'' = None"
    by (cases "segments e") (simp_all add: entryJson_def property_def)
  from written omitted roundtrip strip show ?thesis by blast
qed

theorem persist_then_load_witness:
  "loadEffect (initialApp (Map.empty(''transcription_history'' \<mapsto>
       Text (JArr [JObj [(''id'', JStr ''7''), (''text'', JStr ''hola''), (''timestamp'', JNum 7),
                         (''duration'', JNum 0), (''audioUrl'', JStr ''blob:x'')]]))))
   = WellTyped ((initialApp (Map.empty(''transcription_history'' \<mapsto>
       Text (JArr [JObj [(''id'', JStr ''7''), (''text'', JStr ''hola''), (''timestamp'', JNum 7),
                         (''duration'', JNum 0), (''audioUrl'', JStr ''blob:x'')]]))))
       \<lparr>history := [\<lparr>entryId = ''7'', entryText = ''hola'', segments = None, timestamp = 7,
                      duration = 0, audioUrl = None\<rparr>]\<rparr>)
   \<and> list_all (\<lambda>e. audioUrl e = None)
         (history ((initialApp (Map.empty(''transcription_history'' \<mapsto>
            Text (JArr [JObj [(''id'', JStr ''7''), (''text'', JStr ''hola''), (''timestamp'', JNum 7),
                              (''duration'', JNum 0), (''audioUrl'', JStr ''blob:x'')]]))))
            \<lparr>history := [\<lparr>entryId = ''7'', entryText = ''hola'', segments = None, timestamp = 7,
                           duration = 0, audioUrl = None\<rparr>]\<rparr>))"
proof -
  let ?stored = "[JObj [(''id'', JStr ''7''), (''text'', JStr ''hola''), (''timestamp'', JNum 7),
                        (''duration'', JNum 0), (''audioUrl'', JStr ''blob:x'')]]"
  let ?s = "initialApp (Map.empty(''transcription_history'' \<mapsto> Text (JArr ?stored)))"
  let ?e = "\<lparr>entryId = ''7'', entryText = ''hola'', segments = None, timestamp = 7,
             duration = 0, audioUrl = None\<rparr>"
  have l: "loadEffect ?s = WellTyped (?s\<lparr>history := [?e]\<rparr>)"
    by (simp add: loadEffect_def initialApp_def JSON_parse_def cleanEntry_def property_def
        asSegments_def)
  have k: "localStorage ?s ''transcription_history'' = Some (Text (JArr ?stored))"
    by (simp add: initialApp_def)
  from persist_then_load [where s = ?s and s' = "?s\<lparr>history := [?e]\<rparr>" and stored = ?stored] l k
  have "\<forall>e \<in> set (history (?s\<lparr>history := [?e]\<rparr>)). audioUrl e = None"
    by blast
  then have "list_all (\<lambda>e. audioUrl e = None) (history (?s\<lparr>history := [?e]\<rparr>))"
    by (simp only: list_all_iff)
  with l show ?thesis by blast
qed

text \<open>
  The clear action is carried out only once the user has confirmed the prompt; a
  declined prompt leaves the state as it is and clears nothing.
\<close>

lemma clearHistory_declined: "clearHistory False s = s"
  by (simp add: clearHistory_def)

text \<open>
  C7. Clearing the history empties the in-memory list, removes the storage key and
  leaves no entry selected, whatever the history, the store and the selection were
  before.
\<close>

theorem clearHistory_confirmed:
  "history (clearHistory True s) = []
   \<and> localStorage (clearHistory True s) ''transcription_history'' = None
   \<and> currentEntry (clearHistory True s) = None"
  by (simp add: clearHistory_def)

text \<open>
  C8. Clicking the history row of the entry that is already displayed (same id) leaves
  the whole state as it is; the displayed entry changes only when the clicked entry is
  not the displayed one, and then it becomes the clicked entry; the playback time is
  never touched.
\<close>

theorem selectEntry_same_is_noop:
  "(map_option entryId (currentEntry s) = Some (entryId entry) \<longrightarrow> selectEntry entry s = s)
   \<and> (currentEntry (selectEntry entry s) \<noteq> currentEntry s
        \<longrightarrow> currentEntry s \<noteq> Some entry \<and> currentEntry (selectEntry entry s) = Some entry)
   \<and> currentTime (selectEntry entry s) = currentTime s"
  by (auto simp: selectEntry_def)

theorem selectEntry_same_is_noop_witness:
  "selectEntry \<lparr>entryId = ''7'', entryText = ''hola'', segments = None, timestamp = 7,
                 duration = 0, audioUrl = None\<rparr>
     ((initialApp Map.empty)
        \<lparr>currentEntry := Some \<lparr>entryId = ''7'', entryText = ''hola'', segments = None,
                               timestamp = 7, duration = 0, audioUrl = None\<rparr>,
         currentTime := 3 / 2\<rparr>)
   = (initialApp Map.empty)
        \<lparr>currentEntry := Some \<lparr>entryId = ''7'', entryText = ''hola'', segments = None,
                               timestamp = 7, duration = 0, audioUrl = None\<rparr>,
         currentTime := 3 / 2\<rparr>
   \<and> currentEntry (selectEntry \<lparr>entryId = ''7'', entryText = ''hola'', segments = None,
                                 timestamp = 7, duration = 0, audioUrl = None\<rparr>
                      (initialApp Map.empty))
     = Some \<lparr>entryId = ''7'', entryText = ''hola'', segments = None, timestamp = 7,
             duration = 0, audioUrl = None\<rparr>"
proof -
  let ?e = "\<lparr>entryId = ''7'', entryText = ''hola'', segments = None, timestamp = 7,
             duration = 0, audioUrl = None\<rparr>"
  let ?s = "(initialApp Map.empty)\<lparr>currentEntry := Some ?e, currentTime := 3 / 2\<rparr>"
  have same: "selectEntry ?e ?s = ?s"
    using selectEntry_same_is_noop [of ?s ?e] by simp
  have changed: "currentEntry (selectEntry ?e (initialApp Map.empty))
                 \<noteq> currentEntry (initialApp Map.empty)"
    by (simp add: selectEntry_def initialApp_def)
  have other: "currentEntry (selectEntry ?e (initialApp Map.empty)) = Some ?e"
    using selectEntry_same_is_noop [of "initialApp Map.empty" ?e] changed by blast
  from same other show ?thesis by simp
qed

section \<open>Transcription and upload\<close>

text \<open>
  C5. When the service call fails, or the response text is not JSON, or it is the JSON
  \<open>null\<close>, \<open>processTranscription\<close> ends with status \<open>error\<close> and the fixed message, and
  leaves the history, the store and the selection as they were (only the request is
  recorded). The history or the store change only when \<open>transcribeAudio\<close> has returned
  a result.
\<close>

theorem processTranscription_failure:
  "(reply = CallFailed \<or> reply = Response Malformed \<or> reply = Response (Text JNull)
      \<longrightarrow> processTranscription base64Audio mime dur url fname reply now_id now_ts s
          = WellTyped (s\<lparr>error_message := Some processing_error, status := error,
                         requests := requests s @ [(base64Audio, mime)]\<rparr>))
   \<and> (processTranscription base64Audio mime dur url fname reply now_id now_ts s = WellTyped s'
        \<and> (history s' \<noteq> history s \<or> localStorage s' \<noteq> localStorage s)
      \<longrightarrow> (\<exists>result. transcribeAudio reply = WellTyped (Returns result)))"
  by (auto simp: processTranscription_def transcribeAudio_def JSON_parse_def Let_def
      split: typed.splits attempt.splits)

theorem processTranscription_failure_witness:
  "processTranscription ''QUJD'' ''audio/webm'' 3 ''blob:1'' None CallFailed 5 5
     (initialApp Map.empty)
   = WellTyped ((initialApp Map.empty)
       \<lparr>error_message := Some processing_error, status := error,
        requests := [(''QUJD'', ''audio/webm'')]\<rparr>)
   \<and> (\<exists>result. transcribeAudio (Response (Text (JObj [(''text'', JStr ''hola''), (''segments'', JArr [])])))
         = WellTyped (Returns result))"
proof -
  let ?reply = "Response (Text (JObj [(''text'', JStr ''hola''), (''segments'', JArr [])]))"
  let ?e = "\<lparr>entryId = ''5'', entryText = ''hola'', segments = Some [], timestamp = 5,
             duration = 3, audioUrl = Some ''blob:1''\<rparr>"
  let ?s' = "(initialApp Map.empty)
       \<lparr>error_message := None, status := processing,
        requests := [(''QUJD'', ''audio/webm'')],
        history := [?e],
        localStorage := persistHistory [?e] Map.empty,
        currentEntry := Some ?e,
        status := idle\<rparr>"
  have failed: "processTranscription ''QUJD'' ''audio/webm'' 3 ''blob:1'' None CallFailed 5 5
     (initialApp Map.empty)
   = WellTyped ((initialApp Map.empty)
       \<lparr>error_message := Some processing_error, status := error,
        requests := [(''QUJD'', ''audio/webm'')]\<rparr>)"
    using processTranscription_failure
      [of CallFailed "''QUJD''" "''audio/webm''" 3 "''blob:1''" None 5 5 "initialApp Map.empty"]
    by (simp add: initialApp_def)
  have run: "processTranscription ''QUJD'' ''audio/webm'' 3 ''blob:1'' None ?reply 5 5
     (initialApp Map.empty) = WellTyped ?s'"
    by (simp add: processTranscription_def transcribeAudio_def JSON_parse_def property_def
        asSegments_def initialApp_def String_int_5 Let_def)
  have grown: "history ?s' \<noteq> history (initialApp Map.empty)"
    by (simp add: initialApp_def)
  have "\<exists>result. transcribeAudio ?reply = WellTyped (Returns result)"
    using processTranscription_failure
      [of ?reply "''QUJD''" "''audio/webm''" 3 "''blob:1''" None 5 5 "initialApp Map.empty" ?s']
      run grown
    by blast
  with failed show ?thesis by simp
qed

text \<open>
  The response \<open>{"text": "hola"}\<close> violates the schema (\<open>segments\<close> is required). It
  is not rejected: the attempt ends with status \<open>idle\<close>, no message, and a new entry in
  the history.
\<close>

theorem schema_violation_is_appended:
  "map_typed status (processTranscription ''QUJD'' ''audio/webm'' 3 ''blob:1'' None
       (Response (Text (JObj [(''text'', JStr ''hola'')]))) 5 5 (initialApp Map.empty))
     = WellTyped idle
   \<and> map_typed error_message (processTranscription ''QUJD'' ''audio/webm'' 3 ''blob:1'' None
       (Response (Text (JObj [(''text'', JStr ''hola'')]))) 5 5 (initialApp Map.empty))
     = WellTyped None
   \<and> map_typed history (processTranscription ''QUJD'' ''audio/webm'' 3 ''blob:1'' None
       (Response (Text (JObj [(''text'', JStr ''hola'')]))) 5 5 (initialApp Map.empty))
     = WellTyped [\<lparr>entryId = ''5'', entryText = ''hola'', segments = None, timestamp = 5,
                    duration = 3, audioUrl = Some ''blob:1''\<rparr>]"
  by (simp add: processTranscription_def transcribeAudio_def JSON_parse_def property_def
      asSegments_def initialApp_def String_int_5 Let_def)

text \<open>
  C6. A file whose type does not start with \<open>audio/\<close> only sets the error message: no
  request is sent to the transcription service, and the status, the history, the
  selection and the store are unchanged.
\<close>

theorem handleFileChange_rejects_non_audio:
  "\<not> prefix ''audio/'' (fileType f) \<Longrightarrow>
   handleFileChange (Some f) url reply now_id now_ts s
     = WellTyped (s\<lparr>error_message := Some ''Selecciona un archivo de audio.''\<rparr>)"
  by (simp add: handleFileChange_def)

theorem handleFileChange_rejects_non_audio_witness:
  "handleFileChange (Some \<lparr>fileName = ''notas.txt'', fileType = ''text/plain'', fileData = ''aG9sYQ==''\<rparr>)
     ''blob:2'' (Response (Text (JObj [(''text'', JStr ''hola''), (''segments'', JArr [])]))) 5 5
     (initialApp Map.empty)
   = WellTyped ((initialApp Map.empty)\<lparr>error_message := Some ''Selecciona un archivo de audio.''\<rparr>)"
  using handleFileChange_rejects_non_audio
    [of "\<lparr>fileName = ''notas.txt'', fileType = ''text/plain'', fileData = ''aG9sYQ==''\<rparr>"
        "''blob:2''" "Response (Text (JObj [(''text'', JStr ''hola''), (''segments'', JArr [])]))"
        5 5 "initialApp Map.empty"]
  by simp

section \<open>Recording\<close>

text \<open>
  C4. A first recording of three seconds (three firings of the interval) is stopped:
  the interval is cleared and the completion callback is called once, with the audio
  data and the mime type, but with duration 0 while the counter stands at 3.
\<close>

theorem stopRecording_reports_stale_time:
  "completed (stopRecording ''c'' (tick (tick (tick (dataavailable ''ab''
       (startRecording (Some ''audio/webm'') initialRecorder))))))
     = [(''abc'', ''audio/webm'', 0)]
   \<and> recordingTime (stopRecording ''c'' (tick (tick (tick (dataavailable ''ab''
       (startRecording (Some ''audio/webm'') initialRecorder)))))) = 3
   \<and> \<not> timerRunning (stopRecording ''c'' (tick (tick (tick (dataavailable ''ab''
       (startRecording (Some ''audio/webm'') initialRecorder))))))"
  by (simp add: stopRecording_def onstop_def tick_def dataavailable_def startRecording_def
      initialRecorder_def)

end
